theory Spec2Isabelle
  imports Complex_Main "HOL-Library.AList"
begin

section \<open>Exceptions and loops\<close>

text \<open>
  The script \<^verbatim>\<open>eval/3d_iou_loc.py\<close> is Python over numpy, torch, OpenCV and open3d.
  Every exception the embedded code can raise is a value; a computation that may raise
  returns \<open>py_error + 'a\<close> with \<open>Inl\<close> for the exception.
\<close>

datatype py_error = IndexError | ValueError | RuntimeError | UnboundLocalError | KeyError

definition bindE :: "py_error + 'a \<Rightarrow> ('a \<Rightarrow> py_error + 'b) \<Rightarrow> py_error + 'b" where
  "bindE m f = (case m of Inl e \<Rightarrow> Inl e | Inr x \<Rightarrow> f x)"

text \<open>\<^verbatim>\<open>for x in xs: body\<close> over a state; the first exception leaves the loop.\<close>

primrec forE :: "'a list \<Rightarrow> ('a \<Rightarrow> 's \<Rightarrow> py_error + 's) \<Rightarrow> 's \<Rightarrow> py_error + 's" where
  "forE [] f s = Inr s"
| "forE (x # xs) f s = bindE (f x s) (forE xs f)"

text \<open>\<^verbatim>\<open>xs[i]\<close> on a Python list, for the non-negative indices a \<^verbatim>\<open>range\<close> yields.\<close>

definition list_get :: "'a list \<Rightarrow> nat \<Rightarrow> py_error + 'a" where
  "list_get xs i = (if i < length xs then Inr (xs ! i) else Inl IndexError)"

section \<open>Arrays\<close>

text \<open>
  A numpy array or torch tensor is its shape and its elements in row-major order.
  Elements are reals: the code only compares and selects relevance values, and
  comparison of floating-point numbers is exact.
\<close>

datatype 'a tensor = Tensor (shape: "nat list") (data: "'a list")

definition wf_tensor :: "'a tensor \<Rightarrow> bool" where
  "wf_tensor t = (length (data t) = prod_list (shape t))"

text \<open>\<^verbatim>\<open>t[i]\<close>: the \<open>i\<close>-th block along the first axis.\<close>

definition index0 :: "'a tensor \<Rightarrow> nat \<Rightarrow> py_error + 'a tensor" where
  "index0 t i =
     (case shape t of
        [] \<Rightarrow> Inl IndexError
      | n # s \<Rightarrow>
          if i < n then Inr (Tensor s (take (prod_list s) (drop (i * prod_list s) (data t))))
          else Inl IndexError)"

text \<open>\<^verbatim>\<open>t > c\<close>, elementwise.\<close>

definition gt_scalar :: "real tensor \<Rightarrow> real \<Rightarrow> bool tensor" where
  "gt_scalar t c = Tensor (shape t) (map (\<lambda>v. c < v) (data t))"

text \<open>\<^verbatim>\<open>t.squeeze()\<close> drops every axis of length one; \<^verbatim>\<open>t.unsqueeze(-1)\<close> adds a last one.\<close>

definition squeeze :: "'a tensor \<Rightarrow> 'a tensor" where
  "squeeze t = Tensor (filter (\<lambda>n. n \<noteq> 1) (shape t)) (data t)"

definition unsqueeze_last :: "'a tensor \<Rightarrow> 'a tensor" where
  "unsqueeze_last t = Tensor (shape t @ [1]) (data t)"

text \<open>\<^verbatim>\<open>mask.float()\<close>.\<close>

definition to_float :: "bool tensor \<Rightarrow> real tensor" where
  "to_float m = Tensor (shape m) (map (\<lambda>b. if b then 1 else 0) (data m))"

text \<open>
  \<^verbatim>\<open>t[mask]\<close> with a boolean mask of rank \<open>r\<close>: the mask's shape must be the first \<open>r\<close>
  axes of \<open>t\<close> (numpy and torch raise IndexError otherwise); the result lists, in
  row-major order of the mask, the blocks of \<open>t\<close> at the positions where the mask is
  true, so its first axis counts the true entries. A mask of rank 0 selects the whole
  of \<open>t\<close> once or not at all.
\<close>

definition block :: "nat \<Rightarrow> 'a list \<Rightarrow> nat \<Rightarrow> 'a list" where
  "block c xs j = take c (drop (j * c) xs)"

definition select :: "'a tensor \<Rightarrow> bool tensor \<Rightarrow> 'a tensor" where
  "select t m =
     (let rest = drop (length (shape m)) (shape t) in
      Tensor (length (filter id (data m)) # rest)
        (concat (map (block (prod_list rest) (data t))
                     (filter (\<lambda>j. data m ! j) [0..<length (data m)]))))"

definition bool_index :: "'a tensor \<Rightarrow> bool tensor \<Rightarrow> py_error + 'a tensor" where
  "bool_index t m =
     (if take (length (shape m)) (shape t) = shape m then Inr (select t m)
      else Inl IndexError)"

text \<open>\<^verbatim>\<open>a.shape[0]\<close> and \<^verbatim>\<open>a.reshape(s)\<close>.\<close>

definition shape0 :: "'a tensor \<Rightarrow> py_error + nat" where
  "shape0 t = (case shape t of [] \<Rightarrow> Inl IndexError | n # _ \<Rightarrow> Inr n)"

definition reshape :: "'a tensor \<Rightarrow> nat list \<Rightarrow> py_error + 'a tensor" where
  "reshape t s = (if prod_list s = length (data t) then Inr (Tensor s (data t)) else Inl ValueError)"

text \<open>
  \<^verbatim>\<open>o3d.utility.Vector3dVector(a)\<close> accepts an array of shape \<open>(n, 3)\<close> only.
\<close>

definition Vector3dVector :: "real tensor \<Rightarrow> py_error + real tensor" where
  "Vector3dVector a =
     (case shape a of [n, c] \<Rightarrow> if c = 3 then Inr a else Inl RuntimeError | _ \<Rightarrow> Inl RuntimeError)"

section \<open>Strings and paths\<close>

text \<open>\<^verbatim>\<open>str(n)\<close> for a non-negative integer.\<close>

fun str_nat :: "nat \<Rightarrow> string" where
  "str_nat n =
     (if n < 10 then [''0123456789'' ! n]
      else str_nat (n div 10) @ [''0123456789'' ! (n mod 10)])"

declare str_nat.simps [simp del]

text \<open>\<^verbatim>\<open>os.path.join(a, b)\<close> on POSIX, and \<^verbatim>\<open>s.split('/')[-1]\<close>.\<close>

definition os_path_join :: "string \<Rightarrow> string \<Rightarrow> string" where
  "os_path_join a b =
     (if b \<noteq> [] \<and> hd b = CHR ''/'' then b
      else if a = [] \<or> last a = CHR ''/'' then a @ b
      else a @ ''/'' @ b)"

definition split_last :: "char \<Rightarrow> string \<Rightarrow> string" where
  "split_last sep s = rev (takeWhile (\<lambda>c. c \<noteq> sep) (rev s))"

definition last_component :: "string \<Rightarrow> string" where
  "last_component s = split_last CHR ''/'' s"

section \<open>The Gaussian model, the CLIP model and the outside world\<close>

text \<open>
  The per-Gaussian attribute tensors of \<^verbatim>\<open>scene.gaussian_model.GaussianModel\<close> that the
  script reads and assigns (\<^verbatim>\<open>_features_dc\<close>, ..., \<^verbatim>\<open>max_radii2D\<close>).
\<close>

record gaussian_model =
  features_dc :: "real tensor"
  features_rest :: "real tensor"
  language_feature :: "real tensor"
  opacity :: "real tensor"
  rotation :: "real tensor"
  scaling :: "real tensor"
  xyz :: "real tensor"
  max_radii2D :: "real tensor"

text \<open>
  \<^verbatim>\<open>OpenCLIPNetwork\<close>: the prompts and the relevance computation, which reads the
  prompts of the object it is called on.
\<close>

record 'm clip_model =
  positives :: "string list"
  get_max_across :: "string list \<Rightarrow> 'm \<Rightarrow> real tensor"

text \<open>
  What the script hands to the libraries that write files, and the one channel on which
  it could report a number (\<^verbatim>\<open>get_logger\<close>, lines 31-47).
\<close>

datatype event =
    SavePly string gaussian_model
  | WritePointCloud string "real tensor" "real tensor"
  | SaveImage string "real tensor"
  | VisMaskSave string "nat tensor"
  | ShowResult string "real tensor" "nat list list" "real tensor"
  | LogInfo string

text \<open>
  The state a call works on: the GaussianModel objects by address (a Python list of
  models is a list of addresses), the directories that exist, and the writes so far.
\<close>

record state =
  heap :: "gaussian_model list"
  dirs :: "string set"
  files :: "event list"

text \<open>\<^verbatim>\<open>copy.deepcopy(g)\<close> allocates a new object with the same contents.\<close>

definition deepcopy :: "nat \<Rightarrow> gaussian_model list \<Rightarrow> nat \<times> gaussian_model list" where
  "deepcopy a h = (length h, h @ [h ! a])"

text \<open>\<^verbatim>\<open>g.attr = g.attr[mask]\<close> on the object at address \<open>a\<close>.\<close>

definition mask_attr ::
  "(gaussian_model \<Rightarrow> real tensor) \<Rightarrow>
   ((real tensor \<Rightarrow> real tensor) \<Rightarrow> gaussian_model \<Rightarrow> gaussian_model) \<Rightarrow>
   bool tensor \<Rightarrow> nat \<Rightarrow> gaussian_model list \<Rightarrow> py_error + gaussian_model list" where
  "mask_attr get upd msk a h =
     bindE (bool_index (get (h ! a)) msk) (\<lambda>v. Inr (h[a := upd (\<lambda>_. v) (h ! a)]))"

section \<open>activate_stream (lines 94-158)\<close>

text \<open>Lines 126-146: the branch taken when a list of Gaussian models is supplied.\<close>

definition exclude_branch ::
  "'m clip_model \<Rightarrow> real tensor \<Rightarrow> string \<Rightarrow> string \<Rightarrow> nat list \<Rightarrow> real tensor \<Rightarrow>
   real tensor \<Rightarrow> nat \<Rightarrow> nat \<Rightarrow> state \<Rightarrow> py_error + state" where
  "exclude_branch clip point_xyz output_path output_dir gaussians_list vik rgb_language i k s =
     bindE (list_get gaussians_list i) (\<lambda>gaussians.
     let msk = squeeze (gt_scalar vik 0.65) in
     bindE (bool_index rgb_language msk) (\<lambda>rgb.
     case deepcopy gaussians (heap s) of (gaussians_temp, h0) \<Rightarrow>
     bindE (mask_attr features_dc features_dc_update msk gaussians_temp h0) (\<lambda>h1.
     bindE (mask_attr features_rest features_rest_update msk gaussians_temp h1) (\<lambda>h2.
     bindE (mask_attr language_feature language_feature_update msk gaussians_temp h2) (\<lambda>h3.
     bindE (mask_attr opacity opacity_update msk gaussians_temp h3) (\<lambda>h4.
     bindE (mask_attr rotation rotation_update msk gaussians_temp h4) (\<lambda>h5.
     bindE (mask_attr scaling scaling_update msk gaussians_temp h5) (\<lambda>h6.
     bindE (mask_attr xyz xyz_update msk gaussians_temp h6) (\<lambda>h7.
     bindE (mask_attr max_radii2D max_radii2D_update msk gaussians_temp h7) (\<lambda>h8.
     bindE (list_get (positives clip) k) (\<lambda>pos.
     let ply = SavePly (output_path @ ''/point_cloud/'' @ ''exclude_'' @ pos @ ''_'' @ str_nat i @ ''.ply'')
                       (h8 ! gaussians_temp) in
     bindE (bool_index point_xyz msk) (\<lambda>pts.
     bindE (Vector3dVector pts) (\<lambda>points.
     bindE (shape0 rgb) (\<lambda>n.
     bindE (reshape rgb [n, 3]) (\<lambda>rgb3.
     bindE (Vector3dVector rgb3) (\<lambda>colors.
     let save_path = os_path_join output_dir
                       (last_component output_path @ ''exclude_'' @ pos @ ''_'' @ str_nat i @ ''.ply'') in
     Inr (s\<lparr>heap := h8, files := files s @ [ply, WritePointCloud save_path points colors]\<rparr>)
     ))))))))))))))))"

text \<open>Lines 148-150: the branch taken when there is no list and \<^verbatim>\<open>generate_mask\<close> is set.\<close>

definition mask_branch ::
  "'m clip_model \<Rightarrow> string \<Rightarrow> nat \<Rightarrow> real tensor \<Rightarrow> nat \<Rightarrow> nat \<Rightarrow> state \<Rightarrow> py_error + state" where
  "mask_branch clip output_path index vik i k s =
     (let msk = gt_scalar vik 0.58 in
      bindE (list_get (positives clip) k) (\<lambda>pos.
      let mask_path = os_path_join (os_path_join (os_path_join (os_path_join output_path ''masks'') pos)
                         (str_nat i)) (str_nat index @ ''.png'') in
      Inr (s\<lparr>files := files s @ [SaveImage mask_path (to_float msk)]\<rparr>)))"

text \<open>Lines 152-158: the remaining branch.\<close>

definition cloud_branch ::
  "'m clip_model \<Rightarrow> real tensor \<Rightarrow> string \<Rightarrow> string \<Rightarrow> real tensor \<Rightarrow> nat \<Rightarrow> nat \<Rightarrow> state \<Rightarrow>
   py_error + state" where
  "cloud_branch clip point_xyz output_path output_dir rgb_language i k s =
     bindE (Vector3dVector point_xyz) (\<lambda>points.
     bindE (shape0 rgb_language) (\<lambda>n.
     bindE (reshape rgb_language [n, 3]) (\<lambda>rgb3.
     bindE (Vector3dVector rgb3) (\<lambda>colors.
     bindE (list_get (positives clip) k) (\<lambda>pos.
     let save_path = os_path_join output_dir
                       (last_component output_path @ ''exclude_'' @ pos @ ''_'' @ str_nat i @ ''.ply'') in
     Inr (s\<lparr>files := files s @ [WritePointCloud save_path points colors]\<rparr>))))))"

text \<open>
  Lines 123-158, the body of the loop over heads. \<open>colormap_saving\<close> is
  \<^verbatim>\<open>utils_eval.colormap_saving\<close> called with no save path: it colours the map and writes
  nothing.
\<close>

definition stream_body ::
  "(real tensor \<Rightarrow> 'c \<Rightarrow> real tensor) \<Rightarrow> real tensor \<Rightarrow> 'm clip_model \<Rightarrow> real tensor \<Rightarrow> string \<Rightarrow>
   bool \<Rightarrow> nat \<Rightarrow> nat list option \<Rightarrow> 'c \<Rightarrow> string \<Rightarrow> nat \<Rightarrow> nat \<Rightarrow> state \<Rightarrow> py_error + state" where
  "stream_body colormap_saving valid_map clip point_xyz output_path generate_mask index
     gaussians_list colormap_options output_dir k i s =
     bindE (index0 valid_map i) (\<lambda>vi.
     bindE (index0 vi k) (\<lambda>vik.
     let rgb_language = colormap_saving (unsqueeze_last vik) colormap_options in
     case gaussians_list of
       Some gl \<Rightarrow> exclude_branch clip point_xyz output_path output_dir gl vik rgb_language i k s
     | None \<Rightarrow>
         if generate_mask then mask_branch clip output_path index vik i k s
         else cloud_branch clip point_xyz output_path output_dir rgb_language i k s))"

text \<open>
  The function. \<open>thresh\<close> is a parameter of the source (default 0.5, line 101).
  The arrays \<^verbatim>\<open>iou_lvl\<close> and \<^verbatim>\<open>mask_lvl\<close> (lines 109-110) are never read.
\<close>

definition activate_stream ::
  "(real tensor \<Rightarrow> 'c \<Rightarrow> real tensor) \<Rightarrow> 'm \<Rightarrow> 'm clip_model \<Rightarrow> real tensor \<Rightarrow> string \<Rightarrow>
   bool \<Rightarrow> nat \<Rightarrow> nat list option \<Rightarrow> real \<Rightarrow> 'c \<Rightarrow> state \<Rightarrow> py_error + state" where
  "activate_stream colormap_saving sem_map clip point_xyz output_path generate_mask index
     gaussians_list thresh colormap_options s =
     (let valid_map = get_max_across clip (positives clip) sem_map in
      case shape valid_map of
        [n_head, n_prompt, h, w] \<Rightarrow>
          forE [0..<n_prompt] (\<lambda>k s.
            let output_dir = os_path_join output_path ''heatmap'';
                s' = (if output_dir \<notin> dirs s then s\<lparr>dirs := insert output_dir (dirs s)\<rparr> else s)
            in forE [0..<n_head]
                 (stream_body colormap_saving valid_map clip point_xyz output_path generate_mask
                    index gaussians_list colormap_options output_dir k) s') s
      | _ \<Rightarrow> Inl ValueError)"

definition thresh_default :: real where
  "thresh_default = 0.5"

section \<open>evaluate (lines 258-325)\<close>

text \<open>\<^verbatim>\<open>colormaps.ColormapOptions\<close> as line 261 builds it.\<close>

record colormap_options =
  colormap :: string
  normalize :: bool
  colormap_min :: real
  colormap_max :: real

text \<open>
  What \<^verbatim>\<open>evaluate\<close> takes from outside the script: the sorted listing of the feature
  files of a directory (line 272, ValueError when a file name is not an integer), the
  array a file holds (\<^verbatim>\<open>np.load\<close>), the CLIP network as constructed, the decoder of the
  autoencoder restored from a checkpoint (lines 279-282; loading can raise), and
  \<^verbatim>\<open>utils_eval.colormap_saving\<close>.
\<close>

record world =
  glob_npy :: "string \<Rightarrow> py_error + string list"
  np_load :: "string \<Rightarrow> py_error + real tensor"
  new_clip :: "real tensor clip_model"
  load_decoder :: "string \<Rightarrow> nat list \<Rightarrow> nat list \<Rightarrow> py_error + (real tensor \<Rightarrow> real tensor)"
  colormap_saving :: "real tensor \<Rightarrow> colormap_options \<Rightarrow> real tensor"

text \<open>
  numpy broadcasting of a value into a slot of shape \<open>ds\<close>: leading axes of length one
  of the value beyond the slot's rank are dropped, the shapes are aligned at the last
  axis, and an axis of length one is repeated.
\<close>

fun strip_ones :: "nat \<Rightarrow> nat list \<Rightarrow> nat list" where
  "strip_ones r (n # s) = (if r < length (n # s) \<and> n = 1 then strip_ones r s else n # s)"
| "strip_ones r [] = []"

fun broadcast_data :: "nat list \<Rightarrow> nat list \<Rightarrow> 'a list \<Rightarrow> py_error + 'a list" where
  "broadcast_data [] [] xs = Inr xs"
| "broadcast_data (n # ss) (d # ds) xs =
     (if n = d then
        forE [0..<n] (\<lambda>j acc. bindE (broadcast_data ss ds (block (prod_list ss) xs j))
                                  (\<lambda>ys. Inr (acc @ ys))) []
      else if n = 1 then bindE (broadcast_data ss ds xs) (\<lambda>ys. Inr (concat (replicate d ys)))
      else Inl ValueError)"
| "broadcast_data _ _ xs = Inl ValueError"

definition broadcast_to :: "'a tensor \<Rightarrow> nat list \<Rightarrow> py_error + 'a list" where
  "broadcast_to v ds =
     (let ss = strip_ones (length ds) (shape v) in
      if length ds < length ss then Inl ValueError
      else broadcast_data (replicate (length ds - length ss) 1 @ ss) ds (data v))"

text \<open>\<^verbatim>\<open>a[i][j] = v\<close> on an array of rank at least two.\<close>

definition setitem2 :: "'a tensor \<Rightarrow> nat \<Rightarrow> nat \<Rightarrow> 'a tensor \<Rightarrow> py_error + 'a tensor" where
  "setitem2 a i j v =
     (case shape a of
        n0 # n1 # ds \<Rightarrow>
          if i < n0 \<and> j < n1 then
            bindE (broadcast_to v ds) (\<lambda>ys.
              let off = (i * n1 + j) * prod_list ds in
              Inr (Tensor (shape a) (take off (data a) @ ys @ drop (off + prod_list ds) (data a))))
          else Inl IndexError
      | _ \<Rightarrow> Inl IndexError)"

text \<open>Lines 270-275: the rendered features of every level, read into one array.\<close>

definition load_feats :: "world \<Rightarrow> string list \<Rightarrow> py_error + real tensor" where
  "load_feats wd feat_dir =
     forE [0..<length feat_dir] (\<lambda>i a.
       bindE (glob_npy wd (os_path_join (feat_dir ! i) ''*.npy'')) (\<lambda>feat_paths_lvl.
       forE (zip [0..<length feat_paths_lvl] feat_paths_lvl) (\<lambda>(j, idx) a.
         bindE (np_load wd idx) (\<lambda>v. setitem2 a i j v)) a))
       (Tensor [length feat_dir, 177, 730, 988, 3]
          (replicate (length feat_dir * 177 * 730 * 988 * 3) 0))"

text \<open>\<^verbatim>\<open>a[:, j, ...]\<close>, \<^verbatim>\<open>t.flatten(0, 2)\<close> and \<^verbatim>\<open>t.view(d1, ..., dn, -1)\<close>.\<close>

definition index1 :: "'a tensor \<Rightarrow> nat \<Rightarrow> py_error + 'a tensor" where
  "index1 t j =
     (case shape t of
        n0 # n1 # s \<Rightarrow>
          if j < n1 then
            Inr (Tensor (n0 # s)
                   (concat (map (\<lambda>i. block (prod_list s) (data t) (i * n1 + j)) [0..<n0])))
          else Inl IndexError
      | _ \<Rightarrow> Inl IndexError)"

definition flatten02 :: "'a tensor \<Rightarrow> py_error + 'a tensor" where
  "flatten02 t =
     (case shape t of
        a # b # c # s \<Rightarrow> Inr (Tensor ((a * b * c) # s) (data t))
      | _ \<Rightarrow> Inl IndexError)"

definition view_infer_last :: "'a tensor \<Rightarrow> nat list \<Rightarrow> py_error + 'a tensor" where
  "view_infer_last t ds =
     (let known = prod_list ds; n = length (data t) in
      if known = 0 \<or> n mod known \<noteq> 0 then Inl RuntimeError
      else Inr (Tensor (ds @ [n div known]) (data t)))"

text \<open>Lines 287-293: one frame of the compressed features, decoded.\<close>

definition decode_frame ::
  "(real tensor \<Rightarrow> real tensor) \<Rightarrow> real tensor \<Rightarrow> nat \<Rightarrow> py_error + real tensor" where
  "decode_frame decode compressed_sem_feats j =
     bindE (index1 compressed_sem_feats j) (\<lambda>sem_feat.
     case shape sem_feat of
       [lvl, h, w, c] \<Rightarrow>
         bindE (flatten02 sem_feat) (\<lambda>flat.
         view_infer_last (decode flat) [lvl, h, w])
     | _ \<Rightarrow> Inl ValueError)"

definition img_ann_prompts :: "string list" where
  "img_ann_prompts =
     [''stuffed bear'', ''coffee mug'', ''bag of cookies'', ''sheep'', ''apple'', ''paper napkin'',
      ''plate'', ''tea in a glass'', ''bear nose'', ''three cookies'', ''coffee'', ''dall-e brand'',
      ''yellow pouf'', ''hooves'']"

text \<open>Lines 298-302: \<^verbatim>\<open>os.makedirs(..., exist_ok=True)\<close> for every prompt and level.\<close>

definition make_mask_dirs :: "string \<Rightarrow> nat \<Rightarrow> state \<Rightarrow> state" where
  "make_mask_dirs output_path n_dirs s =
     s\<lparr>dirs := dirs s \<union>
          set [os_path_join (os_path_join (os_path_join output_path ''masks'') folder_name) (str_nat i).
               folder_name \<leftarrow> img_ann_prompts, i \<leftarrow> [0..<n_dirs]]\<rparr>"

definition evaluate ::
  "world \<Rightarrow> string list \<Rightarrow> string \<Rightarrow> string \<Rightarrow> bool \<Rightarrow> real \<Rightarrow> nat list \<Rightarrow> nat list \<Rightarrow>
   real tensor \<Rightarrow> real tensor \<Rightarrow> nat list option \<Rightarrow> state \<Rightarrow> py_error + state" where
  "evaluate wd feat_dir output_path ae_ckpt_path generate_mask mask_thresh encoder_hidden_dims
     decoder_hidden_dims compressed_sem_feats point_xyz gaussians_list s =
     (let colormap_options =
            \<lparr>colormap = ''turbo'', normalize = True, colormap_min = - 1, colormap_max = 1\<rparr> in
      bindE (if gaussians_list = None \<and> generate_mask then load_feats wd feat_dir
             else Inr compressed_sem_feats) (\<lambda>compressed_sem_feats.
      bindE (load_decoder wd ae_ckpt_path encoder_hidden_dims decoder_hidden_dims) (\<lambda>decode.
      bindE (list_get (shape compressed_sem_feats) 1) (\<lambda>n_frames.
      forE [0..<n_frames] (\<lambda>j s.
        bindE (decode_frame decode compressed_sem_feats j) (\<lambda>restored_feat.
        let s1 = (if generate_mask then make_mask_dirs output_path (length feat_dir) s else s);
            clip = (new_clip wd)\<lparr>positives := img_ann_prompts\<rparr>
        in activate_stream (colormap_saving wd) restored_feat clip point_xyz output_path
             generate_mask j gaussians_list mask_thresh colormap_options s1)) s))))"

definition mask_thresh_default :: real where
  "mask_thresh_default = 0.4"

section \<open>lerf_localization (lines 200-255)\<close>

text \<open>
  A ground-truth annotation of one label: the keys \<^verbatim>\<open>'bboxes'\<close> and \<^verbatim>\<open>'mask'\<close>. A Python
  dict is an association list in insertion order.
\<close>

record annotation =
  bboxes :: "real tensor"
  ann_mask :: "nat tensor"

text \<open>\<^verbatim>\<open>a.transpose(1, 2, 0)\<close> and \<^verbatim>\<open>a[..., i]\<close>.\<close>

definition transpose120 :: "'a tensor \<Rightarrow> py_error + 'a tensor" where
  "transpose120 t =
     (case shape t of
        [a, b, c] \<Rightarrow>
          Inr (Tensor [b, c, a]
                 (concat (map (\<lambda>p. map (\<lambda>i. data t ! (i * (b * c) + p)) [0..<a]) [0..<b * c])))
      | _ \<Rightarrow> Inl ValueError)"

definition index_last :: "'a tensor \<Rightarrow> nat \<Rightarrow> py_error + 'a tensor" where
  "index_last t i =
     (case rev (shape t) of
        [] \<Rightarrow> Inl IndexError
      | c # rs \<Rightarrow>
          if i < c then Inr (Tensor (rev rs) (map (\<lambda>p. data t ! (p * c + i)) [0..<prod_list rs]))
          else Inl IndexError)"

text \<open>\<^verbatim>\<open>a.max()\<close> raises on an empty array.\<close>

definition amax :: "real tensor \<Rightarrow> py_error + real" where
  "amax t = (case data t of [] \<Rightarrow> Inl ValueError | v # vs \<Rightarrow> Inr (fold max vs v))"

text \<open>
  \<^verbatim>\<open>np.asarray(np.nonzero(a == score)).transpose(1, 0)[..., ::-1]\<close>: the positions of the
  entries equal to \<open>score\<close> in row-major order, each with its axes reversed.
\<close>

fun unravel :: "nat list \<Rightarrow> nat \<Rightarrow> nat list" where
  "unravel [] p = []"
| "unravel (n # s) p = (p div prod_list s) # unravel s (p mod prod_list s)"

definition nonzero_eq_rev :: "real tensor \<Rightarrow> real \<Rightarrow> nat list list" where
  "nonzero_eq_rev a score =
     map (\<lambda>p. rev (unravel (shape a) p)) (filter (\<lambda>p. data a ! p = score) [0..<length (data a)])"

text \<open>\<^verbatim>\<open>np.argmax(xs)\<close>: the first index of the largest entry.\<close>

definition argmax :: "real list \<Rightarrow> py_error + nat" where
  "argmax xs =
     (case xs of
        [] \<Rightarrow> Inl ValueError
      | v # vs \<Rightarrow> Inr (length (takeWhile (\<lambda>x. x \<noteq> fold max vs v) xs)))"

text \<open>\<^verbatim>\<open>a.reshape(-1, 4)\<close> and the rows a loop over it visits.\<close>

definition reshape_rows4 :: "'a tensor \<Rightarrow> py_error + 'a tensor" where
  "reshape_rows4 t =
     (if length (data t) mod 4 = 0 then Inr (Tensor [length (data t) div 4, 4] (data t))
      else Inl ValueError)"

definition rows :: "'a tensor \<Rightarrow> 'a list list" where
  "rows t = map (block (prod_list (tl (shape t))) (data t)) [0..<hd (shape t)]"

text \<open>
  Lines 236-237: the containment test of one coordinate. \<^verbatim>\<open>and\<close> evaluates
  \<^verbatim>\<open>cord_list[1]\<close> only when the first two comparisons hold.
\<close>

definition inside :: "nat list \<Rightarrow> real \<Rightarrow> real \<Rightarrow> real \<Rightarrow> real \<Rightarrow> py_error + bool" where
  "inside cord_list x_min x_max y_min y_max =
     bindE (list_get cord_list 0) (\<lambda>c0.
     if real c0 \<ge> x_min \<and> real c0 \<le> x_max then
       bindE (list_get cord_list 1) (\<lambda>c1. Inr (real c1 \<ge> y_min \<and> real c1 \<le> y_max))
     else Inr False)"

text \<open>Lines 235-240: the loop over the coordinates, left at the first one inside.\<close>

fun any_inside :: "nat list list \<Rightarrow> real \<Rightarrow> real \<Rightarrow> real \<Rightarrow> real \<Rightarrow> py_error + bool" where
  "any_inside [] x_min x_max y_min y_max = Inr False"
| "any_inside (cord_list # rest) x_min x_max y_min y_max =
     bindE (inside cord_list x_min x_max y_min y_max) (\<lambda>hit.
     if hit then Inr True else any_inside rest x_min x_max y_min y_max)"

text \<open>
  Lines 230-242: the loop over the boxes of one label, left at the first box that holds
  a coordinate. The result is \<^verbatim>\<open>flag\<close>: whether \<^verbatim>\<open>acc_num\<close> was incremented.
\<close>

fun hit_boxes :: "real list list \<Rightarrow> nat list list \<Rightarrow> py_error + bool" where
  "hit_boxes [] coord_final = Inr False"
| "hit_boxes (box # rest) coord_final =
     (case box of
        [x1, y1, x2, y2] \<Rightarrow>
          bindE (any_inside coord_final (min x1 x2) (max x1 x2) (min y1 y2) (max y1 y2)) (\<lambda>flag.
          if flag then Inr True else hit_boxes rest coord_final)
      | _ \<Rightarrow> Inl ValueError)"

text \<open>Lines 214-215: \<^verbatim>\<open>np.ones((scale, scale)) / (scale ** 2)\<close> with \<^verbatim>\<open>scale = 30\<close>.\<close>

definition kernel :: "real tensor" where
  "kernel = (let scale = 30 :: nat in
             Tensor [scale, scale] (map (\<lambda>v. v / real (scale ^ 2)) (replicate (scale * scale) 1)))"

text \<open>Lines 219-228: the score and the coordinates of every head, and the selected head.\<close>

definition head_scores :: "real tensor \<Rightarrow> nat \<Rightarrow> py_error + (real list \<times> nat list list list)" where
  "head_scores avg_filtered n_head =
     forE [0..<n_head] (\<lambda>i (score_lvl, coord_lvl).
       bindE (index_last avg_filtered i) (\<lambda>chan.
       bindE (amax chan) (\<lambda>score.
       Inr (score_lvl[i := score], coord_lvl @ [nonzero_eq_rev chan score]))))
       (replicate n_head 0, [])"

definition select_head :: "real tensor \<Rightarrow> nat \<Rightarrow> py_error + (nat \<times> nat list list)" where
  "select_head avg_filtered n_head =
     bindE (head_scores avg_filtered n_head) (\<lambda>(score_lvl, coord_lvl).
     bindE (argmax score_lvl) (\<lambda>selec_head.
     bindE (list_get coord_lvl selec_head) (\<lambda>coord_final.
     Inr (selec_head, coord_final))))"

text \<open>
  Lines 211-228: the smoothed maps of prompt \<open>k\<close>, the selected head and its
  coordinates. \<open>filter2D\<close> is \<^verbatim>\<open>cv2.filter2D(src, -1, kernel)\<close>.
\<close>

definition localize_prompt ::
  "(real tensor \<Rightarrow> real tensor \<Rightarrow> real tensor) \<Rightarrow> real tensor \<Rightarrow> nat \<Rightarrow> nat \<Rightarrow>
   py_error + (real tensor \<times> real tensor \<times> nat \<times> nat list list)" where
  "localize_prompt filter2D valid_map n_head k =
     bindE (index1 valid_map k) (\<lambda>select_output.
     bindE (transpose120 select_output) (\<lambda>np_relev.
     let avg_filtered = filter2D np_relev kernel in
     bindE (select_head avg_filtered n_head) (\<lambda>(selec_head, coord_final).
     Inr (select_output, avg_filtered, selec_head, coord_final))))"

text \<open>
  The function. \<open>composite\<close> is lines 245-250, which build the picture that
  \<^verbatim>\<open>show_result\<close> saves from the smoothed maps, the raw maps of the prompt, the image and
  the selected head. \<^verbatim>\<open>Path / name\<close> is taken as \<^verbatim>\<open>os.path.join\<close>.
\<close>

definition lerf_localization ::
  "(real tensor \<Rightarrow> real tensor \<Rightarrow> real tensor) \<Rightarrow>
   (real tensor \<Rightarrow> real tensor \<Rightarrow> real tensor \<Rightarrow> nat \<Rightarrow> py_error + real tensor) \<Rightarrow>
   'm \<Rightarrow> real tensor \<Rightarrow> 'm clip_model \<Rightarrow> string \<Rightarrow> (string \<times> annotation) list \<Rightarrow> state \<Rightarrow>
   py_error + (nat \<times> state)" where
  "lerf_localization filter2D composite sem_map img clip image_name img_ann s =
     (let output_path_loca = os_path_join image_name ''localization'';
          s0 = s\<lparr>dirs := insert output_path_loca (dirs s)\<rparr>;
          valid_map = get_max_across clip (positives clip) sem_map
      in case shape valid_map of
        [n_head, n_prompt, h, w] \<Rightarrow>
          let positives_list = map fst img_ann in
          forE [0..<length positives_list] (\<lambda>k (acc_num, s).
            bindE (localize_prompt filter2D valid_map n_head k)
              (\<lambda>(select_output, avg_filtered, selec_head, coord_final).
            bindE (list_get positives_list k) (\<lambda>label.
            (case map_of img_ann label of
               None \<Rightarrow> Inl KeyError
             | Some ann \<Rightarrow>
                 bindE (reshape_rows4 (bboxes ann)) (\<lambda>boxes.
                 bindE (hit_boxes (rows boxes) coord_final) (\<lambda>flag.
                 bindE (composite avg_filtered select_output img selec_head) (\<lambda>valid_composited.
                 Inr (acc_num + (if flag then 1 else 0),
                      s\<lparr>files := files s @
                         [ShowResult (os_path_join output_path_loca (label @ ''.png''))
                            valid_composited coord_final (bboxes ann)]\<rparr>))))))))
            (0, s0)
      | _ \<Rightarrow> Inl ValueError)"

section \<open>eval_gt_lerfdata (lines 50-91)\<close>

text \<open>The labelme file of one frame, as far as the function reads it.\<close>

record gt_object =
  category :: string
  bbox :: "real tensor"
  segmentation :: "real tensor"

record gt_data =
  info_height :: nat
  info_width :: nat
  info_name :: string
  objects :: "gt_object list"

text \<open>
  What the function takes from outside the script: the sorted result of a glob pattern,
  the parsed content of a JSON file, and \<^verbatim>\<open>polygon_to_mask\<close> and \<^verbatim>\<open>stack_mask\<close> of
  \<^verbatim>\<open>utils_eval\<close>.
\<close>

record gt_world =
  glob_sorted :: "string \<Rightarrow> string list"
  json_load :: "string \<Rightarrow> gt_data"
  polygon_to_mask :: "nat \<times> nat \<Rightarrow> real tensor \<Rightarrow> nat tensor"
  stack_mask :: "nat tensor \<Rightarrow> nat tensor \<Rightarrow> nat tensor"

text \<open>\<^verbatim>\<open>s.split(sep)[0]\<close>: what stands before the first occurrence of \<open>sep\<close>.\<close>

fun split_first :: "string \<Rightarrow> string \<Rightarrow> string" where
  "split_first sep [] = []"
| "split_first sep (c # cs) =
     (if take (length sep) (c # cs) = sep then [] else c # split_first sep cs)"

text \<open>
  \<^verbatim>\<open>int(s)\<close> on ASCII text without underscores: surrounding whitespace, an optional
  sign, and at least one decimal digit. \<^verbatim>\<open>str(i)\<close> for an integer.
\<close>

definition is_space :: "char \<Rightarrow> bool" where
  "is_space c = (c \<in> set [CHR '' '', CHR 0x09, CHR 0x0A, CHR 0x0B, CHR 0x0C, CHR 0x0D])"

definition digit_val :: "char \<Rightarrow> nat option" where
  "digit_val c = map_of (zip ''0123456789'' [0..<10]) c"

definition digits_val :: "string \<Rightarrow> nat option" where
  "digits_val ds =
     (if ds = [] \<or> (\<exists>c \<in> set ds. digit_val c = None) then None
      else Some (foldl (\<lambda>a c. 10 * a + the (digit_val c)) 0 ds))"

definition py_int :: "string \<Rightarrow> py_error + int" where
  "py_int s =
     (let t = rev (dropWhile is_space (rev (dropWhile is_space s)));
          (neg, ds) = (case t of
                         c # r \<Rightarrow> if c = CHR ''-'' then (True, r)
                                  else if c = CHR ''+'' then (False, r) else (False, t)
                       | [] \<Rightarrow> (False, t))
      in case digits_val ds of
           None \<Rightarrow> Inl ValueError
         | Some n \<Rightarrow> Inr (if neg then - int n else int n))"

definition str_int :: "int \<Rightarrow> string" where
  "str_int i = (if i < 0 then ''-'' @ str_nat (nat (- i)) else str_nat (nat i))"

definition path_parent :: "string \<Rightarrow> string" where
  "path_parent p = rev (drop 1 (dropWhile (\<lambda>c. c \<noteq> CHR ''/'') (rev p)))"

text \<open>Lines 74-88: one object of a frame.\<close>

definition add_object ::
  "gt_world \<Rightarrow> string \<Rightarrow> gt_data \<Rightarrow> gt_object \<Rightarrow> (string \<times> annotation) list \<times> state \<Rightarrow>
   py_error + ((string \<times> annotation) list \<times> state)" where
  "add_object wd ouput_path gt_data prompt_data = (\<lambda>(img_ann, s).
     let label = category prompt_data;
         box = Tensor [length (data (bbox prompt_data))] (data (bbox prompt_data));
         msk = polygon_to_mask wd (info_height gt_data, info_width gt_data)
                 (segmentation prompt_data)
     in bindE
          (case map_of img_ann label of
             Some ann \<Rightarrow>
               bindE (reshape_rows4 (bboxes ann)) (\<lambda>old.
               bindE (reshape_rows4 box) (\<lambda>new.
               Inr \<lparr>bboxes = Tensor [hd (shape old) + hd (shape new), 4] (data old @ data new),
                    ann_mask = stack_mask wd (ann_mask ann) msk\<rparr>))
           | None \<Rightarrow> Inr \<lparr>bboxes = box, ann_mask = msk\<rparr>)
          (\<lambda>ann.
             let save_path =
                   os_path_join
                     (os_path_join (os_path_join ouput_path ''gt'')
                        (split_first ''.jpg'' (info_name gt_data)))
                     (label @ ''.jpg'')
             in Inr (AList.update label ann img_ann,
                     s\<lparr>dirs := insert (path_parent save_path) (dirs s),
                       files := files s @ [VisMaskSave save_path (ann_mask ann)]\<rparr>)))"

text \<open>Lines 67-89: one JSON file. The second component is \<^verbatim>\<open>(h, w)\<close> once it is bound.\<close>

definition add_frame ::
  "gt_world \<Rightarrow> string \<Rightarrow> string \<Rightarrow>
   (string \<times> (string \<times> annotation) list) list \<times> (nat \<times> nat) option \<times> state \<Rightarrow>
   py_error + ((string \<times> (string \<times> annotation) list) list \<times> (nat \<times> nat) option \<times> state)" where
  "add_frame wd ouput_path js_path = (\<lambda>(gt_ann, hw, s).
     let gt_data = json_load wd js_path;
         h = info_height gt_data;
         w = info_width gt_data
     in bindE (py_int (split_first ''.jpg'' (split_last CHR ''_'' (info_name gt_data)))) (\<lambda>n.
        let idx = n - 1 in
        bindE (forE (objects gt_data) (add_object wd ouput_path gt_data) ([], s)) (\<lambda>(img_ann, s).
        Inr (AList.update (str_int idx) img_ann gt_ann, Some (h, w), s))))"

definition eval_gt_lerfdata ::
  "gt_world \<Rightarrow> string \<Rightarrow> string \<Rightarrow> state \<Rightarrow>
   py_error +
   (((string \<times> (string \<times> annotation) list) list \<times> (nat \<times> nat) \<times> string list) \<times> state)" where
  "eval_gt_lerfdata wd json_folder ouput_path s =
     (let gt_json_paths = glob_sorted wd (os_path_join json_folder ''frame_*.json'');
          img_paths = glob_sorted wd (os_path_join json_folder ''frame_*.jpg'')
      in bindE (forE gt_json_paths (add_frame wd ouput_path) ([], None, s)) (\<lambda>(gt_ann, hw, s).
         case hw of
           None \<Rightarrow> Inl UnboundLocalError
         | Some hw \<Rightarrow> Inr ((gt_ann, hw, img_paths), s)))"


text \<open>A scene of two Gaussians, one head and one prompt.\<close>

definition demo_model :: gaussian_model where
  "demo_model =
     \<lparr>features_dc = Tensor [2, 1, 3] [1, 2, 3, 4, 5, 6],
      features_rest = Tensor [2, 0, 3] [],
      language_feature = Tensor [2, 3] [7, 8, 9, 10, 11, 12],
      opacity = Tensor [2, 1] [0.5, 0.25],
      rotation = Tensor [2, 4] [1, 0, 0, 0, 0, 1, 0, 0],
      scaling = Tensor [2, 3] [1, 1, 1, 2, 2, 2],
      xyz = Tensor [2, 3] [0, 0, 0, 5, 5, 5],
      max_radii2D = Tensor [2] [0, 0]\<rparr>"

definition demo_clip :: "unit clip_model" where
  "demo_clip = \<lparr>positives = [''apple''], get_max_across = (\<lambda>_ _. Tensor [1, 1, 2, 1] [0.9, 0.1])\<rparr>"

definition demo_colormap :: "real tensor \<Rightarrow> unit \<Rightarrow> real tensor" where
  "demo_colormap t opts = Tensor [2, 1, 3] [1, 0, 0, 0, 0, 1]"

definition demo_state :: state where
  "demo_state = \<lparr>heap = [demo_model], dirs = {}, files = []\<rparr>"

definition heap_kept :: "state \<Rightarrow> state \<Rightarrow> bool" where
  "heap_kept s s' =
     (length (heap s) \<le> length (heap s') \<and> take (length (heap s)) (heap s') = heap s)"

text \<open>The result of the run on the scene of two Gaussians.\<close>

definition demo_result :: state where
  "demo_result =
     \<lparr>heap = [demo_model,
              \<lparr>features_dc = Tensor [1, 1, 3] [1, 2, 3],
               features_rest = Tensor [1, 0, 3] [],
               language_feature = Tensor [1, 3] [7, 8, 9],
               opacity = Tensor [1, 1] [0.5],
               rotation = Tensor [1, 4] [1, 0, 0, 0],
               scaling = Tensor [1, 3] [1, 1, 1],
               xyz = Tensor [1, 3] [0, 0, 0],
               max_radii2D = Tensor [1] [0]\<rparr>],
      dirs = {''out/heatmap''},
      files = [SavePly ''out/point_cloud/exclude_apple_0.ply''
                 \<lparr>features_dc = Tensor [1, 1, 3] [1, 2, 3],
                  features_rest = Tensor [1, 0, 3] [],
                  language_feature = Tensor [1, 3] [7, 8, 9],
                  opacity = Tensor [1, 1] [0.5],
                  rotation = Tensor [1, 4] [1, 0, 0, 0],
                  scaling = Tensor [1, 3] [1, 1, 1],
                  xyz = Tensor [1, 3] [0, 0, 0],
                  max_radii2D = Tensor [1] [0]\<rparr>,
               WritePointCloud ''out/heatmap/outexclude_apple_0.ply''
                 (Tensor [1, 3] [0, 0, 0]) (Tensor [1, 3] [1, 0, 0])]\<rparr>"


text \<open>
  An outside world for the scene of two Gaussians: no feature files, a decoder that
  returns its input, and a relevance model that gives every prompt the same map.
\<close>

definition demo_world :: world where
  "demo_world =
     \<lparr>glob_npy = (\<lambda>_. Inr []),
      np_load = (\<lambda>_. Inl ValueError),
      new_clip = \<lparr>positives = [],
                  get_max_across = (\<lambda>ps _. Tensor [1, length ps, 2, 1]
                                              (concat (map (\<lambda>_. [0.9, 0.1]) ps)))\<rparr>,
      load_decoder = (\<lambda>_ _ _. Inr (\<lambda>t. t)),
      colormap_saving = (\<lambda>t _. Tensor [2, 1, 3] [1, 0, 0, 0, 0, 1])\<rparr>"

definition demo_feats :: "real tensor" where
  "demo_feats = Tensor [1, 1, 2, 1, 3] [1, 2, 3, 4, 5, 6]"





section \<open>Basic facts\<close>

lemma bindE_Inr [simp]: "bindE (Inr x) f = f x"
  by (simp add: bindE_def)

lemma bindE_Inl [simp]: "bindE (Inl e) f = Inl e"
  by (simp add: bindE_def)

lemma bindE_eq_Inr: "bindE m f = Inr y \<longleftrightarrow> (\<exists>x. m = Inr x \<and> f x = Inr y)"
  by (cases m) simp_all

lemma index0_shape:
  "shape t = n # sh \<Longrightarrow> i < n \<Longrightarrow>
   index0 t i = Inr (Tensor sh (block (prod_list sh) (data t) i))"
  by (simp add: index0_def block_def)














lemma length_concat_blocks:
  assumes "length xs = n * c" "\<forall>j \<in> set js. j < n"
  shows "length (concat (map (block c xs) js)) = length js * c"
proof -
  have "length (block c xs j) = c" if "j < n" for j
  proof -
    have "(j + 1) * c \<le> n * c" using that by (intro mult_le_mono1) simp
    then show ?thesis using assms(1) by (simp add: block_def algebra_simps)
  qed
  then have "map length (map (block c xs) js) = replicate (length js) c"
    using assms(2) by (induction js) auto
  then show ?thesis by (simp add: length_concat sum_list_replicate)
qed



lemma keep_bound: "\<forall>j \<in> set (filter Q [0..<n]). j < n"
  by simp






lemmas run_defs = activate_stream_def stream_body_def exclude_branch_def mask_branch_def
  cloud_branch_def index0_def squeeze_def gt_scalar_def to_float_def unsqueeze_last_def
  bool_index_def select_def block_def deepcopy_def mask_attr_def list_get_def
  Vector3dVector_def shape0_def reshape_def os_path_join_def last_component_def
  split_last_def str_nat.simps Let_def


lemma bindE_InrE:
  assumes "bindE m f = Inr y"
  obtains x where "m = Inr x" "f x = Inr y"
  using assms by (cases m) simp_all

lemma mask_attr_frame:
  assumes "mask_attr get upd m a h = Inr h'"
  shows "length h' = length h \<and> take a h' = take a h"
  using assms by (auto simp: mask_attr_def elim!: bindE_InrE)

lemma exclude_branch_result:
  assumes "exclude_branch clp pxyz outp dir gl vik rgb i k s = Inr s'"
  shows "\<exists>h p g q pts c. length h = Suc (length (heap s)) \<and>
           take (length (heap s)) h = heap s \<and>
           s' = s\<lparr>heap := h, files := files s @ [SavePly p g, WritePointCloud q pts c]\<rparr>"
  using assms unfolding exclude_branch_def Let_def deepcopy_def prod.case
  apply (elim bindE_InrE)
  apply (drule mask_attr_frame)+
  apply (elim conjE)
  apply simp
  apply blast
  done


lemma mask_branch_result:
  assumes "mask_branch clp outp idx vik i k s = Inr s'"
  shows "\<exists>p. s' = s\<lparr>files := files s @ [SaveImage p (to_float (gt_scalar vik 0.58))]\<rparr>"
  using assms unfolding mask_branch_def Let_def
  by (elim bindE_InrE) auto

lemma cloud_branch_result:
  assumes "cloud_branch clp pxyz outp dir rgb i k s = Inr s'"
  shows "\<exists>p c. s' = s\<lparr>files := files s @ [WritePointCloud p pxyz c]\<rparr>"
  using assms unfolding cloud_branch_def Let_def
  apply (elim bindE_InrE)
  apply (auto simp: Vector3dVector_def split: list.splits if_splits)
  done

text \<open>What one pass of the loop body may append to the writes, by branch.\<close>

lemma stream_body_result:
  assumes "stream_body cs vm clp pxyz outp gm idx gls opts dir k i s = Inr s'"
  shows "length (heap s) \<le> length (heap s') \<and> take (length (heap s)) (heap s') = heap s \<and>
         (\<exists>e. files s' = files s @ e \<and>
            (case gls of
               Some gl \<Rightarrow> \<exists>p g q pts c. e = [SavePly p g, WritePointCloud q pts c]
             | None \<Rightarrow>
                 if gm then \<exists>p img. e = [SaveImage p img] \<and> set (data img) \<subseteq> {0, 1}
                 else \<exists>p c. e = [WritePointCloud p pxyz c]))"
proof -
  from assms obtain vi vik where
    body: "(case gls of
       Some gl \<Rightarrow> exclude_branch clp pxyz outp dir gl vik (cs (unsqueeze_last vik) opts) i k s
     | None \<Rightarrow>
         if gm then mask_branch clp outp idx vik i k s
         else cloud_branch clp pxyz outp dir (cs (unsqueeze_last vik) opts) i k s) = Inr s'"
    unfolding stream_body_def Let_def by (elim bindE_InrE)
  show ?thesis
  proof (cases gls)
    case (Some gl)
    with body exclude_branch_result[of clp pxyz outp dir gl vik "cs (unsqueeze_last vik) opts" i k s s']
    show ?thesis by auto
  next
    case None
    show ?thesis
    proof (cases gm)
      case True
      with body None mask_branch_result[of clp outp idx vik i k s s']
      show ?thesis by (auto simp: to_float_def)
    next
      case False
      with body None cloud_branch_result[of clp pxyz outp dir "cs (unsqueeze_last vik) opts" i k s s']
      show ?thesis by auto
    qed
  qed
qed

lemma forE_rel:
  assumes step: "\<And>x s s'. x \<in> set xs \<Longrightarrow> f x s = Inr s' \<Longrightarrow> R s s'"
      and refl: "\<And>s. R s s"
      and trans: "\<And>s t u. R s t \<Longrightarrow> R t u \<Longrightarrow> R s u"
      and run: "forE xs f s = Inr s'"
  shows "R s s'"
  using step run
proof (induction xs arbitrary: s)
  case Nil
  then show ?case using refl by simp
next
  case (Cons x xs)
  from Cons.prems(2) obtain s1 where s1: "f x s = Inr s1" "forE xs f s1 = Inr s'"
    by (auto elim: bindE_InrE)
  have "R s s1" using Cons.prems(1)[of x s s1] s1(1) by simp
  moreover have "R s1 s'"
  proof (rule Cons.IH)
    show "R t t'" if "y \<in> set xs" "f y t = Inr t'" for y t t'
      using Cons.prems(1)[of y t t'] that by simp
    show "forE xs f s1 = Inr s'" by (rule s1(2))
  qed
  ultimately show ?case using trans by blast
qed

lemma forE_events:
  assumes step: "\<And>x s s'. x \<in> set xs \<Longrightarrow> f x s = Inr s' \<Longrightarrow>
                   \<exists>e. Q x e \<and> files s' = files s @ e"
      and run: "forE xs f s = Inr s'"
  shows "\<exists>es. list_all2 Q xs es \<and> files s' = files s @ concat es"
  using step run
proof (induction xs arbitrary: s)
  case Nil
  then show ?case by simp
next
  case (Cons x xs)
  from Cons.prems(2) obtain s1 where s1: "f x s = Inr s1" "forE xs f s1 = Inr s'"
    by (auto elim: bindE_InrE)
  from Cons.prems(1)[of x s s1] s1(1) obtain e where e: "Q x e" "files s1 = files s @ e"
    by auto
  have "\<exists>es. list_all2 Q xs es \<and> files s' = files s1 @ concat es"
  proof (rule Cons.IH)
    show "\<exists>e. Q y e \<and> files t' = files t @ e" if "y \<in> set xs" "f y t = Inr t'" for y t t'
      using Cons.prems(1)[of y t t'] that by simp
    show "forE xs f s1 = Inr s'" by (rule s1(2))
  qed
  then obtain es where es: "list_all2 Q xs es" "files s' = files s1 @ concat es"
    by auto
  have "list_all2 Q (x # xs) (e # es) \<and> files s' = files s @ concat (e # es)"
    using e es by simp
  then show ?case by blast
qed

lemma heap_kept_refl: "heap_kept s s"
  by (simp add: heap_kept_def)

lemma heap_kept_trans:
  assumes "heap_kept s t" "heap_kept t u"
  shows "heap_kept s u"
proof -
  have le: "length (heap s) \<le> length (heap t)" "length (heap t) \<le> length (heap u)"
    using assms by (simp_all add: heap_kept_def)
  have "take (length (heap s)) (heap u) = take (length (heap s)) (take (length (heap t)) (heap u))"
    using le by (simp add: min_def)
  also have "\<dots> = heap s" using assms by (simp add: heap_kept_def)
  finally show ?thesis using le by (simp add: heap_kept_def)
qed

lemma activate_stream_heap_kept:
  assumes "activate_stream cs sem_map clp pxyz outp gm idx gls thresh opts s = Inr s'"
  shows "heap_kept s s'"
proof -
  define vm where "vm = get_max_across clp (positives clp) sem_map"
  from assms obtain n_head n_prompt h w where
    run: "forE [0..<n_prompt] (\<lambda>k s.
            let output_dir = os_path_join outp ''heatmap'';
                s' = (if output_dir \<notin> dirs s then s\<lparr>dirs := insert output_dir (dirs s)\<rparr> else s)
            in forE [0..<n_head]
                 (stream_body cs vm clp pxyz outp gm idx gls opts output_dir k) s') s = Inr s'"
    unfolding activate_stream_def Let_def vm_def
    by (auto split: list.splits)
  show ?thesis
  proof (rule forE_rel[OF _ heap_kept_refl heap_kept_trans run])
    fix k s1 s2
    assume "(let output_dir = os_path_join outp ''heatmap'';
                s' = (if output_dir \<notin> dirs s1 then s1\<lparr>dirs := insert output_dir (dirs s1)\<rparr> else s1)
            in forE [0..<n_head]
                 (stream_body cs vm clp pxyz outp gm idx gls opts output_dir k) s') = Inr s2"
    then have inner: "forE [0..<n_head]
        (stream_body cs vm clp pxyz outp gm idx gls opts (os_path_join outp ''heatmap'') k)
        (if os_path_join outp ''heatmap'' \<notin> dirs s1
         then s1\<lparr>dirs := insert (os_path_join outp ''heatmap'') (dirs s1)\<rparr> else s1) = Inr s2"
      by (simp add: Let_def)
    have "heap_kept (if os_path_join outp ''heatmap'' \<notin> dirs s1
         then s1\<lparr>dirs := insert (os_path_join outp ''heatmap'') (dirs s1)\<rparr> else s1) s2"
    proof (rule forE_rel[OF _ heap_kept_refl heap_kept_trans inner])
      fix i t t'
      assume "stream_body cs vm clp pxyz outp gm idx gls opts (os_path_join outp ''heatmap'') k i t
              = Inr t'"
      from stream_body_result[OF this] show "heap_kept t t'" by (simp add: heap_kept_def)
    qed
    then show "heap_kept s1 s2" by (simp add: heap_kept_def split: if_splits)
  qed
qed


lemma demo_run:
  "activate_stream demo_colormap () demo_clip (Tensor [2, 3] [0, 0, 0, 5, 5, 5]) ''out'' gm 0
     (Some [0]) t () demo_state = Inr demo_result"
  by (simp add: run_defs demo_clip_def demo_state_def demo_model_def demo_colormap_def
      demo_result_def)

text \<open>
  C9. The 3D exclusion branch masks a deep copy: whenever \<^verbatim>\<open>activate_stream\<close> returns,
  every GaussianModel object that existed before the call (the models of
  \<^verbatim>\<open>gaussians_list\<close> among them) has the contents it had, so every attribute tensor of an
  original model is unchanged.
\<close>

theorem activate_stream_keeps_models:
  assumes "activate_stream cs sem_map clp pxyz outp gm idx gls thresh opts s = Inr s'"
  shows "length (heap s) \<le> length (heap s') \<and> (\<forall>a<length (heap s). heap s' ! a = heap s ! a)"
proof -
  from activate_stream_heap_kept[OF assms]
  have le: "length (heap s) \<le> length (heap s')"
    and tk: "take (length (heap s)) (heap s') = heap s"
    by (simp_all add: heap_kept_def)
  have "heap s' ! a = heap s ! a" if "a < length (heap s)" for a
  proof -
    have "take (length (heap s)) (heap s') ! a = heap s' ! a" using that by simp
    then show ?thesis by (simp add: tk)
  qed
  then show ?thesis using le by simp
qed

theorem activate_stream_keeps_models_witness:
  "activate_stream demo_colormap () demo_clip (Tensor [2, 3] [0, 0, 0, 5, 5, 5]) ''out'' False 0
     (Some [0]) thresh_default () demo_state = Inr demo_result \<and>
   heap demo_result ! 0 = heap demo_state ! 0 \<and>
   heap demo_state ! 0 = demo_model \<and>
   opacity (heap demo_result ! 1) = Tensor [1, 1] [0.5] \<and>
   opacity demo_model = Tensor [2, 1] [0.5, 0.25]"
  using activate_stream_keeps_models [OF demo_run [of False thresh_default]] demo_run [of False thresh_default]
  by (simp add: demo_state_def demo_result_def demo_model_def)

lemma forE_total:
  assumes "\<And>x s. x \<in> set xs \<Longrightarrow> \<exists>s'. f x s = Inr s'"
  shows "\<exists>s'. forE xs f s = Inr s'"
  using assms
proof (induction xs arbitrary: s)
  case Nil
  then show ?case by simp
next
  case (Cons x xs)
  from Cons.prems[of x s] obtain s1 where s1: "f x s = Inr s1" by auto
  have "\<exists>s'. forE xs f s1 = Inr s'"
    by (rule Cons.IH) (use Cons.prems in simp)
  with s1 show ?case by simp
qed

lemma cloud_branch_total:
  assumes "shape pxyz = [n, 3]" "shape rgb = [m, 1, 3]" "wf_tensor rgb"
      and "k < length (positives clp)"
  shows "\<exists>s'. cloud_branch clp pxyz outp dir rgb i k s = Inr s'"
  using assms
  by (simp add: cloud_branch_def Vector3dVector_def shape0_def reshape_def wf_tensor_def
      list_get_def)

lemma stream_body_cloud_total:
  assumes "shape vm = [n_head, n_prompt, h, w]" "i < n_head" "k < n_prompt"
      and "shape pxyz = [n, 3]" "k < length (positives clp)"
      and "\<forall>t. (\<exists>m. shape (cs t opts) = [m, 1, 3]) \<and> wf_tensor (cs t opts)"
  shows "\<exists>s'. stream_body cs vm clp pxyz outp False idx None opts dir k i s = Inr s'"
proof -
  let ?vik = "Tensor [h, w] (block (h * w) (block (n_prompt * (h * w)) (data vm) i) k)"
  from assms(6) obtain m where "shape (cs (unsqueeze_last ?vik) opts) = [m, 1, 3]"
    and "wf_tensor (cs (unsqueeze_last ?vik) opts)" by blast
  from cloud_branch_total[OF assms(4) this assms(5), of outp dir i s]
  show ?thesis
    using assms(1-3) by (simp add: stream_body_def index0_shape)
qed

lemma events_indexed:
  assumes "list_all2 (\<lambda>(k :: nat) e. \<exists>es. list_all2 (\<lambda>(i :: nat). Q) [0..<m] es \<and> e = concat es)
             [0..<n] eo"
  shows "\<exists>ev. concat eo = concat (map (\<lambda>k. concat (map (ev k) [0..<m])) [0..<n]) \<and>
              (\<forall>k<n. \<forall>i<m. Q (ev k i))"
proof -
  have len: "length eo = n" using assms by (auto dest: list_all2_lengthD)
  have "\<forall>k<n. \<exists>es. list_all2 (\<lambda>(i :: nat). Q) [0..<m] es \<and> eo ! k = concat es"
    using assms by (auto simp: list_all2_conv_all_nth)
  then obtain ess where ess:
    "\<forall>k<n. list_all2 (\<lambda>(i :: nat). Q) [0..<m] (ess k) \<and> eo ! k = concat (ess k)"
    by metis
  define ev where "ev = (\<lambda>k i. ess k ! i)"
  have l: "length (ess k) = m" if "k < n" for k
  proof -
    from ess that have "list_all2 (\<lambda>(i :: nat). Q) [0..<m] (ess k)" by blast
    from list_all2_lengthD[OF this] show ?thesis by simp
  qed
  have row: "map (ev k) [0..<m] = ess k" if "k < n" for k
    using l[OF that] by (auto simp: ev_def intro: nth_equalityI)
  have "eo = map (\<lambda>k. concat (map (ev k) [0..<m])) [0..<n]"
    using len ess row by (auto intro!: nth_equalityI)
  moreover have "Q (ev k i)" if "k < n" "i < m" for k i
  proof -
    from ess that have "list_all2 (\<lambda>(i :: nat). Q) [0..<m] (ess k)" by blast
    then show ?thesis using that(2) l[OF that(1)] by (simp add: list_all2_conv_all_nth ev_def)
  qed
  ultimately show ?thesis by blast
qed

text \<open>
  C7. For every (head, prompt) pair \<^verbatim>\<open>activate_stream\<close> takes exactly one of three
  branches. With a list of Gaussian models the run is the same whether or not
  \<^verbatim>\<open>generate_mask\<close> is set. Whenever the run returns, what it has written is, pair by
  pair in loop order: with a list, one masked model and one point cloud; without a list
  and with \<^verbatim>\<open>generate_mask\<close>, one image whose values are 0 or 1; otherwise one point cloud
  whose points are all of \<^verbatim>\<open>point_xyz\<close>. In that last case the run does return when the
  positions have shape \<open>(n, 3)\<close>, every prompt has a name and the colour map yields
  arrays of shape \<open>(m, 1, 3)\<close>.
\<close>

theorem activate_stream_branches:
  fixes clp :: "'m clip_model" and cs :: "real tensor \<Rightarrow> 'c \<Rightarrow> real tensor"
  assumes shp: "shape (get_max_across clp (positives clp) sem_map) = [n_head, n_prompt, h, w]"
  shows "activate_stream cs sem_map clp pxyz outp True idx (Some gl) thresh opts s =
         activate_stream cs sem_map clp pxyz outp False idx (Some gl) thresh opts s \<and>
         (\<forall>s'. activate_stream cs sem_map clp pxyz outp gm idx gls thresh opts s = Inr s' \<longrightarrow>
            (\<exists>ev. files s' = files s @
                      concat (map (\<lambda>k. concat (map (ev k) [0..<n_head])) [0..<n_prompt]) \<and>
               (\<forall>k<n_prompt. \<forall>i<n_head.
                  case gls of
                    Some gl' \<Rightarrow> \<exists>p g q pts c. ev k i = [SavePly p g, WritePointCloud q pts c]
                  | None \<Rightarrow>
                      if gm then \<exists>p img. ev k i = [SaveImage p img] \<and> set (data img) \<subseteq> {0, 1}
                      else \<exists>p c. ev k i = [WritePointCloud p pxyz c]))) \<and>
         (gls = None \<and> \<not> gm \<and> n_prompt \<le> length (positives clp) \<and> (\<exists>n. shape pxyz = [n, 3]) \<and>
          (\<forall>t. (\<exists>m. shape (cs t opts) = [m, 1, 3]) \<and> wf_tensor (cs t opts)) \<longrightarrow>
          (\<exists>s'. activate_stream cs sem_map clp pxyz outp gm idx gls thresh opts s = Inr s'))"
proof (intro conjI allI impI)
  define vm where "vm = get_max_across clp (positives clp) sem_map"
  have shp': "shape vm = [n_head, n_prompt, h, w]" using shp by (simp add: vm_def)
  show "activate_stream cs sem_map clp pxyz outp True idx (Some gl) thresh opts s =
        activate_stream cs sem_map clp pxyz outp False idx (Some gl) thresh opts s"
  proof -
    have "stream_body cs v clp pxyz outp True idx (Some gl) opts dir k =
          stream_body cs v clp pxyz outp False idx (Some gl) opts dir k" for v dir k
      by (intro ext) (simp add: stream_body_def)
    then show ?thesis using shp by (simp add: activate_stream_def)
  qed
  define Q where "Q = (\<lambda>e. case gls of
                    Some gl' \<Rightarrow> \<exists>p g q pts c. e = [SavePly p g, WritePointCloud q pts c]
                  | None \<Rightarrow>
                      if gm then \<exists>p img. e = [SaveImage p img] \<and> set (data img) \<subseteq> {0, 1 :: real}
                      else \<exists>p c. e = [WritePointCloud p pxyz c])"
  {
    fix s'
    assume "activate_stream cs sem_map clp pxyz outp gm idx gls thresh opts s = Inr s'"
    then have run: "forE [0..<n_prompt] (\<lambda>k s.
            let output_dir = os_path_join outp ''heatmap'';
                s' = (if output_dir \<notin> dirs s then s\<lparr>dirs := insert output_dir (dirs s)\<rparr> else s)
            in forE [0..<n_head]
                 (stream_body cs vm clp pxyz outp gm idx gls opts output_dir k) s') s = Inr s'"
      using shp' by (simp add: activate_stream_def vm_def[symmetric])
    have "\<exists>eo. list_all2 (\<lambda>k e. \<exists>es. list_all2 (\<lambda>i. Q) [0..<n_head] es \<and> e = concat es)
                  [0..<n_prompt] eo \<and> files s' = files s @ concat eo"
    proof (rule forE_events[OF _ run])
      fix k s1 s2
      assume "(let output_dir = os_path_join outp ''heatmap'';
                s' = (if output_dir \<notin> dirs s1 then s1\<lparr>dirs := insert output_dir (dirs s1)\<rparr> else s1)
            in forE [0..<n_head]
                 (stream_body cs vm clp pxyz outp gm idx gls opts output_dir k) s') = Inr s2"
      then have inner: "forE [0..<n_head]
          (stream_body cs vm clp pxyz outp gm idx gls opts (os_path_join outp ''heatmap'') k)
          (if os_path_join outp ''heatmap'' \<notin> dirs s1
           then s1\<lparr>dirs := insert (os_path_join outp ''heatmap'') (dirs s1)\<rparr> else s1) = Inr s2"
        by (simp add: Let_def)
      have "\<exists>es. list_all2 (\<lambda>i. Q) [0..<n_head] es \<and>
              files s2 = files (if os_path_join outp ''heatmap'' \<notin> dirs s1
                 then s1\<lparr>dirs := insert (os_path_join outp ''heatmap'') (dirs s1)\<rparr> else s1) @
                concat es"
      proof (rule forE_events[OF _ inner])
        fix i t t'
        assume "stream_body cs vm clp pxyz outp gm idx gls opts (os_path_join outp ''heatmap'') k i t
                = Inr t'"
        from stream_body_result[OF this]
        show "\<exists>e. Q e \<and> files t' = files t @ e" unfolding Q_def by blast
      qed
      then show "\<exists>e. (\<exists>es. list_all2 (\<lambda>i. Q) [0..<n_head] es \<and> e = concat es) \<and>
                    files s2 = files s1 @ e"
        by (auto split: if_splits)
    qed
    then obtain eo where eo:
      "list_all2 (\<lambda>k e. \<exists>es. list_all2 (\<lambda>i. Q) [0..<n_head] es \<and> e = concat es) [0..<n_prompt] eo"
      "files s' = files s @ concat eo"
      by blast
    from events_indexed[OF eo(1)] obtain ev where ev:
      "concat eo = concat (map (\<lambda>k. concat (map (ev k) [0..<n_head])) [0..<n_prompt])"
      "\<forall>k<n_prompt. \<forall>i<n_head. Q (ev k i)"
      by blast
    have "files s' = files s @
                      concat (map (\<lambda>k. concat (map (ev k) [0..<n_head])) [0..<n_prompt]) \<and>
               (\<forall>k<n_prompt. \<forall>i<n_head. Q (ev k i))"
      using eo(2) ev by simp
    then show "\<exists>ev. files s' = files s @
                      concat (map (\<lambda>k. concat (map (ev k) [0..<n_head])) [0..<n_prompt]) \<and>
               (\<forall>k<n_prompt. \<forall>i<n_head.
                  case gls of
                    Some gl' \<Rightarrow> \<exists>p g q pts c. ev k i = [SavePly p g, WritePointCloud q pts c]
                  | None \<Rightarrow>
                      if gm then \<exists>p img. ev k i = [SaveImage p img] \<and> set (data img) \<subseteq> {0, 1}
                      else \<exists>p c. ev k i = [WritePointCloud p pxyz c])"
      unfolding Q_def by blast
  }
  {
    assume a: "gls = None \<and> \<not> gm \<and> n_prompt \<le> length (positives clp) \<and> (\<exists>n. shape pxyz = [n, 3]) \<and>
          (\<forall>t. (\<exists>m. shape (cs t opts) = [m, 1, 3]) \<and> wf_tensor (cs t opts))"
    then obtain n where n: "shape pxyz = [n, 3]" by blast
    have "\<exists>s'. forE [0..<n_prompt] (\<lambda>k s.
            let output_dir = os_path_join outp ''heatmap'';
                s' = (if output_dir \<notin> dirs s then s\<lparr>dirs := insert output_dir (dirs s)\<rparr> else s)
            in forE [0..<n_head]
                 (stream_body cs vm clp pxyz outp False idx None opts output_dir k) s') s = Inr s'"
    proof (rule forE_total)
      fix k s1 assume "k \<in> set [0..<n_prompt]"
      then have k: "k < n_prompt" by simp
      have "\<exists>s'. forE [0..<n_head]
                 (stream_body cs vm clp pxyz outp False idx None opts (os_path_join outp ''heatmap'') k)
                 s0 = Inr s'" for s0
      proof (rule forE_total)
        fix i t assume "i \<in> set [0..<n_head]"
        then have i: "i < n_head" by simp
        show "\<exists>s'. stream_body cs vm clp pxyz outp False idx None opts
                      (os_path_join outp ''heatmap'') k i t = Inr s'"
          by (rule stream_body_cloud_total[OF shp' i k n]) (use a k in auto)
      qed
      then show "\<exists>s'. (let output_dir = os_path_join outp ''heatmap'';
                s' = (if output_dir \<notin> dirs s1 then s1\<lparr>dirs := insert output_dir (dirs s1)\<rparr> else s1)
            in forE [0..<n_head]
                 (stream_body cs vm clp pxyz outp False idx None opts output_dir k) s') = Inr s'"
        by (simp add: Let_def)
    qed
    then show "\<exists>s'. activate_stream cs sem_map clp pxyz outp gm idx gls thresh opts s = Inr s'"
      using a shp' by (simp add: activate_stream_def vm_def[symmetric])
  }
qed


theorem activate_stream_branches_witness:
  "activate_stream demo_colormap () demo_clip (Tensor [2, 3] [0, 0, 0, 5, 5, 5]) ''out'' False 0
     None thresh_default () demo_state =
   Inr \<lparr>heap = [demo_model], dirs = {''out/heatmap''},
        files = [WritePointCloud ''out/heatmap/outexclude_apple_0.ply''
                   (Tensor [2, 3] [0, 0, 0, 5, 5, 5]) (Tensor [2, 3] [1, 0, 0, 0, 0, 1])]\<rparr> \<and>
   activate_stream demo_colormap () demo_clip (Tensor [2, 3] [0, 0, 0, 5, 5, 5]) ''out'' True 0
     None thresh_default () demo_state =
   Inr \<lparr>heap = [demo_model], dirs = {''out/heatmap''},
        files = [SaveImage ''out/masks/apple/0/0.png'' (Tensor [2, 1] [1, 0])]\<rparr> \<and>
   activate_stream demo_colormap () demo_clip (Tensor [2, 3] [0, 0, 0, 5, 5, 5]) ''out'' True 0
     (Some [0]) thresh_default () demo_state = Inr demo_result"
proof -
  have h: "shape (get_max_across demo_clip (positives demo_clip) ()) = [1, 1, 2, 1]"
    by (simp add: demo_clip_def)
  note r = activate_stream_branches [where clp = demo_clip and sem_map = "()" and cs = demo_colormap
      and pxyz = "Tensor [2, 3] [0, 0, 0, 5, 5, 5]" and outp = "''out''" and idx = 0
      and gl = "[0]" and thresh = thresh_default and opts = "()" and s = demo_state
      and gm = False and gls = None, OF h]
  have pre: "(None :: nat list option) = None \<and> \<not> False \<and> 1 \<le> length (positives demo_clip) \<and>
             (\<exists>n. shape (Tensor [2, 3] [0, 0, 0, 5, 5, 5 :: real]) = [n, 3]) \<and>
             (\<forall>t. (\<exists>m. shape (demo_colormap t ()) = [m, 1, 3]) \<and> wf_tensor (demo_colormap t ()))"
    by (simp add: demo_clip_def demo_colormap_def wf_tensor_def)
  from r pre have
    "activate_stream demo_colormap () demo_clip (Tensor [2, 3] [0, 0, 0, 5, 5, 5]) ''out'' True 0
       (Some [0]) thresh_default () demo_state =
     activate_stream demo_colormap () demo_clip (Tensor [2, 3] [0, 0, 0, 5, 5, 5]) ''out'' False 0
       (Some [0]) thresh_default () demo_state"
    and "\<exists>s'. activate_stream demo_colormap () demo_clip (Tensor [2, 3] [0, 0, 0, 5, 5, 5]) ''out''
            False 0 None thresh_default () demo_state = Inr s'"
    by blast+
  then show ?thesis
    by (simp add: demo_run)
       (simp add: run_defs demo_clip_def demo_state_def demo_model_def demo_colormap_def)
qed

lemma demo_decode:
  "decode_frame (\<lambda>t. t) demo_feats 0 = Inr (Tensor [1, 2, 1, 3] [1, 2, 3, 4, 5, 6])"
  by (simp add: decode_frame_def demo_feats_def index1_def block_def flatten02_def
      view_infer_last_def)



















lemma activate_stream_thresh:
  "activate_stream cs sem_map clp pxyz outp gm idx gls thresh1 =
   activate_stream cs sem_map clp pxyz outp gm idx gls thresh2"
  by (intro ext) (simp add: activate_stream_def)

text \<open>
  C6. The \<^verbatim>\<open>thresh\<close> parameter of \<^verbatim>\<open>activate_stream\<close> and the \<^verbatim>\<open>mask_thresh\<close> that
  \<^verbatim>\<open>evaluate\<close> forwards to it have no effect: any two values give the same result, an
  exception or the same final state, all other inputs being equal.
\<close>

theorem thresh_has_no_effect:
  "activate_stream cs sem_map clp pxyz outp gm idx gls thresh1 opts s =
   activate_stream cs sem_map clp pxyz outp gm idx gls thresh2 opts s \<and>
   evaluate wd feat_dir outp ckpt gm thresh1 enc dec csf pxyz gls s =
   evaluate wd feat_dir outp ckpt gm thresh2 enc dec csf pxyz gls s"
  unfolding evaluate_def activate_stream_thresh[of _ _ _ _ _ _ _ _ thresh1 thresh2]
  by (rule conjI; rule refl)

theorem thresh_has_no_effect_witness:
  "activate_stream demo_colormap () demo_clip (Tensor [2, 3] [0, 0, 0, 5, 5, 5]) ''out'' False 0
     (Some [0]) thresh_default () demo_state =
   activate_stream demo_colormap () demo_clip (Tensor [2, 3] [0, 0, 0, 5, 5, 5]) ''out'' False 0
     (Some [0]) mask_thresh_default () demo_state \<and>
   evaluate demo_world [] ''out'' ''ckpt'' False thresh_default [] [] demo_feats
     (Tensor [2, 3] [0, 0, 0, 5, 5, 5]) (Some [0]) demo_state =
   evaluate demo_world [] ''out'' ''ckpt'' False mask_thresh_default [] [] demo_feats
     (Tensor [2, 3] [0, 0, 0, 5, 5, 5]) (Some [0]) demo_state \<and>
   thresh_default \<noteq> mask_thresh_default"
  using thresh_has_no_effect [of demo_colormap "()" demo_clip "Tensor [2, 3] [0, 0, 0, 5, 5, 5]"
      "''out''" False 0 "Some [0]" thresh_default "()" demo_state mask_thresh_default
      demo_world "[]" "''ckpt''" "[]" "[]" demo_feats]
  by (simp add: thresh_default_def mask_thresh_default_def)


text \<open>
  C8. For every frame index \<open>j\<close>, decoding the compressed features of the frame, of
  shape \<open>(lvl, h, w, c)\<close>, flattens the first three axes, applies the decoder and
  reshapes back. With a decoder that maps \<open>n\<close> rows of width \<open>c\<close> to \<open>n\<close> rows of width
  \<open>d\<close> and at least one pixel, the decoded tensor has shape \<open>(lvl, h, w, d)\<close> and holds
  the decoder's output on the flattened frame.
\<close>

theorem decode_frame_shape:
  assumes shp: "shape csf = [lvl, n_frames, h, w, c]"
      and wf: "wf_tensor csf"
      and j: "j < n_frames"
      and dec: "\<forall>t n. shape t = [n, c] \<and> wf_tensor t \<longrightarrow>
                  shape (decode t) = [n, d] \<and> wf_tensor (decode t)"
      and pos: "0 < lvl * h * w"
  shows "\<exists>sem_feat r.
           index1 csf j = Inr sem_feat \<and> shape sem_feat = [lvl, h, w, c] \<and>
           decode_frame decode csf j = Inr r \<and> shape r = [lvl, h, w, d] \<and>
           data r = data (decode (Tensor [lvl * h * w, c] (data sem_feat)))"
proof -
  define sem_feat where "sem_feat = Tensor [lvl, h, w, c]
      (concat (map (\<lambda>i. block (h * (w * c)) (data csf) (i * n_frames + j)) [0..<lvl]))"
  define flat where "flat = Tensor [lvl * h * w, c] (data sem_feat)"
  have i1: "index1 csf j = Inr sem_feat"
    using shp j by (simp add: index1_def sem_feat_def)
  have fl: "flatten02 sem_feat = Inr flat"
    by (simp add: flatten02_def sem_feat_def flat_def)
  have len: "length (data csf) = (lvl * n_frames) * (h * (w * c))"
    using wf shp by (simp add: wf_tensor_def)
  have idx: "\<forall>q \<in> set (map (\<lambda>i. i * n_frames + j) [0..<lvl]). q < lvl * n_frames"
  proof
    fix q assume "q \<in> set (map (\<lambda>i. i * n_frames + j) [0..<lvl])"
    then obtain i where i: "i < lvl" "q = i * n_frames + j" by auto
    have "(i + 1) * n_frames \<le> lvl * n_frames" using i(1) by (intro mult_le_mono1) simp
    then show "q < lvl * n_frames" using i(2) j by (simp add: algebra_simps)
  qed
  have "length (concat (map (block (h * (w * c)) (data csf)) (map (\<lambda>i. i * n_frames + j) [0..<lvl])))
        = length (map (\<lambda>i. i * n_frames + j) [0..<lvl]) * (h * (w * c))"
    by (rule length_concat_blocks[OF len idx])
  then have wfl: "wf_tensor flat"
    by (simp add: flat_def sem_feat_def wf_tensor_def comp_def mult.assoc)
  have d: "shape (decode flat) = [lvl * h * w, d]" "length (data (decode flat)) = lvl * h * w * d"
    using dec wfl by (simp_all add: flat_def wf_tensor_def)
  have v: "view_infer_last (decode flat) [lvl, h, w] =
           Inr (Tensor [lvl, h, w, d] (data (decode flat)))"
    using pos d(2) by (simp add: view_infer_last_def mult.assoc)
  have sh: "shape sem_feat = [lvl, h, w, c]" by (simp add: sem_feat_def)
  have "decode_frame decode csf j = Inr (Tensor [lvl, h, w, d] (data (decode flat)))"
    unfolding decode_frame_def by (simp add: i1 sh fl v)
  with i1 sh show ?thesis
    by (simp add: flat_def)
qed

theorem decode_frame_shape_witness:
  "decode_frame (\<lambda>t. t) demo_feats 0 = Inr (Tensor [1, 2, 1, 3] [1, 2, 3, 4, 5, 6])"
proof -
  have h1: "shape demo_feats = [1, 1, 2, 1, 3]" by (simp add: demo_feats_def)
  have h2: "wf_tensor demo_feats" by (simp add: demo_feats_def wf_tensor_def)
  have h3: "(0::nat) < 1" by simp
  have h4: "\<forall>t n. shape t = [n, 3] \<and> wf_tensor t \<longrightarrow>
              shape ((\<lambda>t :: real tensor. t) t) = [n, 3] \<and> wf_tensor ((\<lambda>t :: real tensor. t) t)"
    by simp
  have h5: "(0::nat) < 1 * 2 * 1" by simp
  from decode_frame_shape [where decode = "\<lambda>t. t" and d = 3, OF h1 h2 h3 h4 h5]
  show ?thesis
    by (simp add: decode_frame_def demo_feats_def index1_def block_def flatten02_def
        view_infer_last_def)
qed


















end
